theory Spec2Isabelle
  imports Main "HOL-Library.Multiset" "HOL-Library.Sublist"
begin

section \<open>Entity types (types.ts)\<close>

text \<open>
  The two entity interfaces of the finance tracker. A JavaScript \<open>number\<close> is kept as a
  type parameter \<open>'n\<close>: every function below asks of it only the operations it uses
  (\<open>+\<close>, \<open>-\<close>, \<open>0\<close>, \<open>max\<close>, \<open>>\<close>), and every theorem names in its sort the
  laws of arithmetic it rests on. The rounding of IEEE 754 doubles is not part of this
  development; the statements that need associativity or an order hold for exact
  numbers (for instance \<open>int\<close>), which is what JavaScript computes as long as the
  amounts and their running totals are whole numbers below \<open>2\<^sup>5\<^sup>3\<close>.
\<close>

datatype AccountType = CREDIT_CARD | LOAN | OVERDRAFT

datatype TransactionDirection = POSITIVE | NEGATIVE

datatype Currency = TRY

record 'n Account =
  a_id :: string
  a_name :: string
  a_type :: AccountType
  bankName :: string
  currency :: Currency
  startingDebt :: 'n
  createdAt :: string
  a_notes :: string

record 'n Transaction =
  t_id :: string
  accountId :: string
  date :: string
  amount :: 'n
  direction :: TransactionDirection
  category :: string
  description :: string

section \<open>Balance calculator (App.tsx, getBalance)\<close>

text \<open>
  \<^verbatim>\<open>transactions.filter(t => t.accountId === account.id)
      .reduce((total, t) => t.direction === 'NEGATIVE' ? total + t.amount : total - t.amount,
              account.startingDebt)\<close>
  \<open>Array.prototype.reduce\<close> with an initial value is a left fold; \<open>applyTransaction\<close> is
  its callback.
\<close>

definition applyTransaction :: "'n::{plus,minus} \<Rightarrow> 'n Transaction \<Rightarrow> 'n" where
  "applyTransaction tot transaction =
     (if direction transaction = NEGATIVE then tot + amount transaction
      else tot - amount transaction)"

definition getBalance :: "('n::{plus,minus}) Account \<Rightarrow> 'n Transaction list \<Rightarrow> 'n" where
  "getBalance account transactions =
     foldl applyTransaction (startingDebt account)
       (filter (\<lambda>transaction. accountId transaction = a_id account) transactions)"

section \<open>Aggregation layer (App.tsx, component App)\<close>

record 'n Summary =
  account :: "'n Account"
  balance :: 'n

definition accountSummaries ::
  "('n::{plus,minus}) Account list \<Rightarrow> 'n Transaction list \<Rightarrow> 'n Summary list" where
  "accountSummaries accs txs = map (\<lambda>a. \<lparr>account = a, balance = getBalance a txs\<rparr>) accs"


text \<open>
  The earlier variant of the component shows "Current debt" instead:
  \<^verbatim>\<open>accounts.reduce((sum, account) => sum + getBalance(account, transactions), 0)\<close>
\<close>

definition totalBalance ::
  "('n::{plus,minus,zero}) Account list \<Rightarrow> 'n Transaction list \<Rightarrow> 'n" where
  "totalBalance accs txs = foldl (\<lambda>sum a. sum + getBalance a txs) 0 accs"





text \<open>
  \<^verbatim>\<open>accountSummaries.reduce((current, entry) => {
      const debt = Math.max(entry.balance, 0);
      if (!current || debt > current.debt) return { account: entry.account, debt };
      return current;
    }, null)\<close>
\<close>

record 'n Highest =
  h_account :: "'n Account"
  debt :: 'n

definition highestStep ::
  "('n::{zero,ord}) Highest option \<Rightarrow> 'n Summary \<Rightarrow> 'n Highest option" where
  "highestStep current entry =
     (let d = max (balance entry) 0 in
      case current of
        None \<Rightarrow> Some \<lparr>h_account = account entry, debt = d\<rparr>
      | Some c \<Rightarrow> if d > debt c then Some \<lparr>h_account = account entry, debt = d\<rparr> else current)"

definition highestDebtAccount ::
  "('n::{plus,minus,zero,ord}) Account list \<Rightarrow> 'n Transaction list \<Rightarrow> 'n Highest option" where
  "highestDebtAccount accs txs = foldl highestStep None (accountSummaries accs txs)"


section \<open>Mutation layer (App.tsx, component App)\<close>

text \<open>
  The component's two collections are its state; a handler's \<open>setAccounts\<close> and
  \<open>setTransactions\<close> calls are applied together before the next render.
\<close>

record 'n AppState =
  accounts :: "'n Account list"
  transactions :: "'n Transaction list"

definition addAccount :: "'n Account \<Rightarrow> 'n AppState \<Rightarrow> 'n AppState" where
  "addAccount a st = st\<lparr>accounts := a # accounts st\<rparr>"


definition deleteAccount :: "string \<Rightarrow> 'n AppState \<Rightarrow> 'n AppState" where
  "deleteAccount d st =
     st\<lparr>accounts := filter (\<lambda>a. a_id a \<noteq> d) (accounts st),
        transactions := filter (\<lambda>t. accountId t \<noteq> d) (transactions st)\<rparr>"

definition deleteTransaction :: "string \<Rightarrow> 'n AppState \<Rightarrow> 'n AppState" where
  "deleteTransaction d st = st\<lparr>transactions := filter (\<lambda>t. t_id t \<noteq> d) (transactions st)\<rparr>"

section \<open>Persistence adapter (App.tsx, loadFromStorage and saveToStorage)\<close>

text \<open>
  The platform is a parameter. \<open>localStorage\<close> is \<open>None\<close> where
  \<^verbatim>\<open>typeof localStorage === 'undefined'\<close>; otherwise it holds the stored items, and
  the platform decides for each call whether it throws (a disabled store, an exceeded
  quota). \<open>JSON.stringify\<close> and \<open>JSON.parse\<close> are the two functions of a codec record.
  A thrown exception is the \<open>Inl\<close> of a result; \<open>tryCatch\<close> is the \<open>try\<close> block with
  its handler. The handlers' \<open>console.warn\<close> is not recorded, and the \<open>typeof\<close> test
  itself is taken to evaluate without throwing.
\<close>

definition storageKeys_accounts :: string where
  "storageKeys_accounts = ''deneme-webapp.accounts''"

definition storageKeys_transactions :: string where
  "storageKeys_transactions = ''deneme-webapp.transactions''"


datatype JsError = SyntaxError | TypeError | QuotaExceededError | SecurityError








section \<open>Notions used in the statements\<close>


text \<open>The debt an account shows in the aggregates: its balance, or zero when in credit.\<close>

definition clampedBalance :: "('n::{plus,minus,zero,ord}) Account \<Rightarrow> 'n Transaction list \<Rightarrow> 'n" where
  "clampedBalance a txs = max (getBalance a txs) 0"

text \<open>The debt one summary entry shows: \<^verbatim>\<open>Math.max(entry.balance, 0)\<close>.\<close>

definition entryDebt :: "('n::{zero,ord}) Summary \<Rightarrow> 'n" where
  "entryDebt entry = max (balance entry) 0"


section \<open>Example data\<close>

text \<open>
  The seed data of \<open>createDefaultAccounts\<close> and \<open>createDefaultTransactions\<close>, with fixed
  identifiers and dates in place of \<open>crypto.randomUUID()\<close> and \<open>new Date()\<close>: the
  scholarship payment is dated two months back, and a fourth transaction, a payoff of
  the loan, is dated a month ahead.
\<close>

definition everydayCard :: "int Account" where
  "everydayCard =
     \<lparr>a_id = ''acc-1'', a_name = ''Everyday Card'', a_type = CREDIT_CARD,
      bankName = ''Deneme Bank'', currency = TRY, startingDebt = 12000,
      createdAt = ''2026-11-03T00:00:00.000Z'',
      a_notes = ''Track your debt and repayments here.''\<rparr>"

definition educationLoan :: "int Account" where
  "educationLoan =
     \<lparr>a_id = ''acc-2'', a_name = ''Education Loan'', a_type = LOAN,
      bankName = ''Campus Finance'', currency = TRY, startingDebt = 54000,
      createdAt = ''2026-11-03T00:00:00.000Z'',
      a_notes = ''Make steady payments to reduce interest.''\<rparr>"

definition groceries :: "int Transaction" where
  "groceries =
     \<lparr>t_id = ''tx-1'', accountId = ''acc-1'', date = ''2026-11-03T00:00:00.000Z'',
      amount = 2500, direction = NEGATIVE, category = ''Groceries'',
      description = ''Weekly essentials''\<rparr>"

definition monthlyPayment :: "int Transaction" where
  "monthlyPayment =
     \<lparr>t_id = ''tx-2'', accountId = ''acc-1'', date = ''2026-11-03T00:00:00.000Z'',
      amount = 1500, direction = POSITIVE, category = ''Payment'',
      description = ''Monthly payment''\<rparr>"

definition scholarship :: "int Transaction" where
  "scholarship =
     \<lparr>t_id = ''tx-3'', accountId = ''acc-2'', date = ''2026-09-01T00:00:00.000Z'',
      amount = 5000, direction = POSITIVE, category = ''Scholarship'',
      description = ''Extra payment''\<rparr>"

definition plannedPayment :: "int Transaction" where
  "plannedPayment =
     \<lparr>t_id = ''tx-4'', accountId = ''acc-2'', date = ''2026-12-03T00:00:00.000Z'',
      amount = 60000, direction = POSITIVE, category = ''Payment'',
      description = ''Planned payoff''\<rparr>"



definition exampleState :: "int AppState" where
  "exampleState =
     \<lparr>accounts = [everydayCard, educationLoan],
      transactions = [groceries, monthlyPayment, scholarship]\<rparr>"



section \<open>Balance calculator: properties\<close>

lemma getBalance_Nil: "getBalance A [] = startingDebt A"
  by (simp add: getBalance_def)

lemma getBalance_snoc_own:
  "accountId t = a_id A \<Longrightarrow> getBalance A (T @ [t]) = applyTransaction (getBalance A T) t"
  by (simp add: getBalance_def)

lemma getBalance_foreign:
  "\<forall>t \<in> set T. accountId t \<noteq> a_id A \<Longrightarrow> getBalance A T = startingDebt A"
proof -
  assume "\<forall>t \<in> set T. accountId t \<noteq> a_id A"
  then have "filter (\<lambda>t. accountId t = a_id A) T = []"
    by (simp add: filter_empty_conv)
  then show ?thesis
    by (simp add: getBalance_def)
qed






text \<open>
  Claim C6. For a transaction \<open>t\<close> of account \<open>A\<close> appended to a list \<open>T\<close>: a NEGATIVE
  \<open>t\<close> makes the balance that of \<open>T\<close> plus the amount of \<open>t\<close>, a POSITIVE \<open>t\<close> makes it
  that of \<open>T\<close> minus the amount. It holds for any \<open>+\<close> and \<open>-\<close>, whatever their laws.
\<close>

theorem getBalance_append:
  fixes A :: "('n::{plus,minus}) Account"
  shows "accountId t = a_id A \<longrightarrow>
     (direction t = NEGATIVE \<longrightarrow> getBalance A (T @ [t]) = getBalance A T + amount t) \<and>
     (direction t = POSITIVE \<longrightarrow> getBalance A (T @ [t]) = getBalance A T - amount t)"
  by (simp add: getBalance_snoc_own applyTransaction_def)

theorem getBalance_append_witness:
  "accountId groceries = a_id everydayCard \<and> direction groceries = NEGATIVE \<and>
   getBalance everydayCard ([scholarship] @ [groceries]) =
     getBalance everydayCard [scholarship] + 2500 \<and>
   accountId monthlyPayment = a_id everydayCard \<and> direction monthlyPayment = POSITIVE \<and>
   getBalance everydayCard ([groceries] @ [monthlyPayment]) =
     getBalance everydayCard [groceries] - 1500"
  using getBalance_append [of groceries everydayCard "[scholarship]"]
        getBalance_append [of monthlyPayment everydayCard "[groceries]"]
  by (simp add: everydayCard_def groceries_def monthlyPayment_def)

text \<open>
  Claim C7. Applied to a collection that holds no transaction of account \<open>A\<close>, and so to
  the empty collection, the balance calculator returns the starting debt of \<open>A\<close>. The
  function is total: it has no error result.
\<close>

theorem getBalance_no_own:
  fixes A :: "('n::{plus,minus}) Account"
  shows "getBalance A [] = startingDebt A \<and>
    ((\<forall>t \<in> set T. accountId t \<noteq> a_id A) \<longrightarrow> getBalance A T = startingDebt A)"
  by (simp add: getBalance_Nil getBalance_foreign)

theorem getBalance_no_own_witness:
  "accountId scholarship \<noteq> a_id everydayCard \<and> getBalance everydayCard [scholarship] = 12000"
  using getBalance_no_own [of everydayCard "[scholarship]"]
  by (simp add: everydayCard_def scholarship_def)

section \<open>Aggregation layer: total remaining debt\<close>






text \<open>
  The "Current debt" figure of the earlier variant is another aggregate: the plain sum of
  the balances, in which a credit on one account offsets the debt of another.
\<close>

lemma totalBalance_sum:
  fixes accs :: "('n::linordered_ab_group_add) Account list"
  shows "totalBalance accs txs = sum_list (map (\<lambda>a. getBalance a txs) accs)"
proof -
  have "foldl (\<lambda>sum a. sum + getBalance a txs) s accs =
        s + sum_list (map (\<lambda>a. getBalance a txs) accs)" for s
    by (induction accs arbitrary: s) (simp_all add: add.assoc)
  then show ?thesis by (simp add: totalBalance_def)
qed

lemma totalBalance_example:
  "totalBalance [everydayCard, educationLoan] [plannedPayment] = 6000 \<and>
   totalBalance [educationLoan] [plannedPayment] = - 6000"
  by (simp add: totalBalance_def getBalance_def applyTransaction_def
        everydayCard_def educationLoan_def plannedPayment_def)

section \<open>Mutation layer: cascade delete\<close>

lemma count_list_filter:
  "count_list (filter P xs) x = (if P x then count_list xs x else 0)"
  by (induction xs) auto

text \<open>
  Claim C3. Deleting account \<open>d\<close> is one step on the state that leaves no account with
  id \<open>d\<close> and no transaction with accountId \<open>d\<close>; what is left of each collection is a
  subsequence of what was there (nothing added, order kept); and every account with
  another id and every transaction with another accountId occurs after the step exactly
  as often as before.
\<close>

theorem deleteAccount_cascade:
  "(\<forall>a \<in> set (accounts (deleteAccount d st)). a_id a \<noteq> d) \<and>
   (\<forall>t \<in> set (transactions (deleteAccount d st)). accountId t \<noteq> d) \<and>
   subseq (accounts (deleteAccount d st)) (accounts st) \<and>
   subseq (transactions (deleteAccount d st)) (transactions st) \<and>
   (\<forall>a. a_id a \<noteq> d \<longrightarrow>
      count_list (accounts (deleteAccount d st)) a = count_list (accounts st) a) \<and>
   (\<forall>t. accountId t \<noteq> d \<longrightarrow>
      count_list (transactions (deleteAccount d st)) t = count_list (transactions st) t)"
  by (simp add: deleteAccount_def count_list_filter)

theorem deleteAccount_cascade_witness:
  "accounts (deleteAccount ''acc-1'' exampleState) = [educationLoan] \<and>
   transactions (deleteAccount ''acc-1'' exampleState) = [scholarship] \<and>
   a_id educationLoan \<noteq> ''acc-1'' \<and> accountId scholarship \<noteq> ''acc-1'' \<and>
   count_list (accounts (deleteAccount ''acc-1'' exampleState)) educationLoan = 1 \<and>
   count_list (transactions (deleteAccount ''acc-1'' exampleState)) scholarship = 1 \<and>
   subseq [educationLoan] (accounts exampleState)"
  using deleteAccount_cascade [of "''acc-1''" exampleState]
  by (simp add: deleteAccount_def exampleState_def everydayCard_def educationLoan_def
        groceries_def monthlyPayment_def scholarship_def)

section \<open>Aggregation layer: recent activity\<close>













section \<open>Aggregation layer: highest debt\<close>

lemma highestStep_None:
  "highestStep None e = Some \<lparr>h_account = account e, debt = entryDebt e\<rparr>"
  by (simp add: highestStep_def entryDebt_def)

lemma highestStep_Some:
  "highestStep (Some c) e =
     (if entryDebt e > debt c then Some \<lparr>h_account = account e, debt = entryDebt e\<rparr> else Some c)"
  by (simp add: highestStep_def entryDebt_def Let_def)

lemma foldl_highestStep_first_max:
  fixes xs :: "('n::{linorder,zero}) Summary list"
  assumes "xs \<noteq> []"
  shows "\<exists>i<length xs.
           foldl highestStep None xs = Some \<lparr>h_account = account (xs ! i), debt = entryDebt (xs ! i)\<rparr> \<and>
           (\<forall>j<length xs. entryDebt (xs ! j) \<le> entryDebt (xs ! i)) \<and>
           (\<forall>j<i. entryDebt (xs ! j) < entryDebt (xs ! i))"
  using assms
proof (induction xs rule: rev_nonempty_induct)
  case (single x)
  then show ?case by (simp add: highestStep_None)
next
  case (snoc x xs)
  then obtain i where i: "i < length xs"
    and f: "foldl highestStep None xs = Some \<lparr>h_account = account (xs ! i), debt = entryDebt (xs ! i)\<rparr>"
    and mx: "\<forall>j<length xs. entryDebt (xs ! j) \<le> entryDebt (xs ! i)"
    and fst: "\<forall>j<i. entryDebt (xs ! j) < entryDebt (xs ! i)"
    by blast
  show ?case
  proof (cases "entryDebt x > entryDebt (xs ! i)")
    case True
    have "foldl highestStep None (xs @ [x]) = Some \<lparr>h_account = account x, debt = entryDebt x\<rparr>"
      using True f by (simp add: highestStep_Some)
    moreover have "\<forall>j<length xs. entryDebt (xs ! j) < entryDebt x"
      using True mx by (meson le_less_trans)
    ultimately show ?thesis
      by (intro exI [of _ "length xs"]) (auto simp: nth_append less_Suc_eq order.strict_implies_order)
  next
    case False
    have "foldl highestStep None (xs @ [x]) = Some \<lparr>h_account = account (xs ! i), debt = entryDebt (xs ! i)\<rparr>"
      using False f by (simp add: highestStep_Some)
    then show ?thesis
      using False i mx fst
      by (intro exI [of _ i]) (auto simp: nth_append less_Suc_eq)
  qed
qed


lemma entryDebt_summary:
  "i < length accs \<Longrightarrow> entryDebt (accountSummaries accs txs ! i) = clampedBalance (accs ! i) txs"
  by (simp add: accountSummaries_def entryDebt_def clampedBalance_def)

lemma account_summary:
  "i < length accs \<Longrightarrow> account (accountSummaries accs txs ! i) = accs ! i"
  by (simp add: accountSummaries_def)

lemma highestDebtAccount_index:
  fixes accs :: "('n::{linorder,zero,plus,minus}) Account list"
  assumes "accs \<noteq> []"
  shows "\<exists>i<length accs.
           highestDebtAccount accs txs =
             Some \<lparr>h_account = accs ! i, debt = clampedBalance (accs ! i) txs\<rparr> \<and>
           (\<forall>j<length accs. clampedBalance (accs ! j) txs \<le> clampedBalance (accs ! i) txs) \<and>
           (\<forall>j<i. clampedBalance (accs ! j) txs < clampedBalance (accs ! i) txs)"
proof -
  let ?xs = "accountSummaries accs txs"
  have len: "length ?xs = length accs"
    by (simp add: accountSummaries_def)
  with assms have "?xs \<noteq> []" by auto
  from foldl_highestStep_first_max [OF this] obtain i where i: "i < length ?xs"
    and f: "foldl highestStep None ?xs = Some \<lparr>h_account = account (?xs ! i), debt = entryDebt (?xs ! i)\<rparr>"
    and mx: "\<forall>j<length ?xs. entryDebt (?xs ! j) \<le> entryDebt (?xs ! i)"
    and fst: "\<forall>j<i. entryDebt (?xs ! j) < entryDebt (?xs ! i)"
    by blast
  from i len have i': "i < length accs" by simp
  have "highestDebtAccount accs txs =
             Some \<lparr>h_account = accs ! i, debt = clampedBalance (accs ! i) txs\<rparr>"
    using f i' by (simp add: highestDebtAccount_def entryDebt_summary account_summary)
  moreover have "\<forall>j<length accs. clampedBalance (accs ! j) txs \<le> clampedBalance (accs ! i) txs"
    using mx i' len by (simp add: entryDebt_summary)
  moreover have "\<forall>j<i. clampedBalance (accs ! j) txs < clampedBalance (accs ! i) txs"
    using fst i' by (simp add: entryDebt_summary)
  ultimately show ?thesis using i' by blast
qed

text \<open>
  Claim C10. For a collection with at least one account, the highest-debt aggregate is
  never null: it is the account at some position \<open>i\<close> with its clamped balance as the
  debt, no account has a greater clamped balance, and every account before position
  \<open>i\<close> has a strictly smaller one, so \<open>i\<close> is the first position that attains the
  maximum. When every balance is zero or negative, the result is the first account of
  the collection with debt 0. Only the linear order of the numbers is used.
\<close>

theorem highestDebtAccount_first_max:
  fixes accs :: "('n::{linorder,zero,plus,minus}) Account list"
  assumes "accs \<noteq> []"
  shows "(\<exists>i<length accs.
           highestDebtAccount accs txs =
             Some \<lparr>h_account = accs ! i, debt = max (getBalance (accs ! i) txs) 0\<rparr> \<and>
           (\<forall>j<length accs. max (getBalance (accs ! j) txs) 0 \<le> max (getBalance (accs ! i) txs) 0) \<and>
           (\<forall>j<i. max (getBalance (accs ! j) txs) 0 < max (getBalance (accs ! i) txs) 0)) \<and>
         ((\<forall>a \<in> set accs. getBalance a txs \<le> 0) \<longrightarrow>
            highestDebtAccount accs txs = Some \<lparr>h_account = hd accs, debt = 0\<rparr>)"
proof (intro conjI impI)
  from highestDebtAccount_index [OF assms, of txs]
  show "\<exists>i<length accs.
           highestDebtAccount accs txs =
             Some \<lparr>h_account = accs ! i, debt = max (getBalance (accs ! i) txs) 0\<rparr> \<and>
           (\<forall>j<length accs. max (getBalance (accs ! j) txs) 0 \<le> max (getBalance (accs ! i) txs) 0) \<and>
           (\<forall>j<i. max (getBalance (accs ! j) txs) 0 < max (getBalance (accs ! i) txs) 0)"
    by (simp add: clampedBalance_def)
next
  assume all: "\<forall>a \<in> set accs. getBalance a txs \<le> 0"
  then have z: "clampedBalance (accs ! j) txs = 0" if "j < length accs" for j
    using that by (simp add: clampedBalance_def max_def)
  from highestDebtAccount_index [OF assms, of txs] obtain i where i: "i < length accs"
    and f: "highestDebtAccount accs txs =
             Some \<lparr>h_account = accs ! i, debt = clampedBalance (accs ! i) txs\<rparr>"
    and fst: "\<forall>j<i. clampedBalance (accs ! j) txs < clampedBalance (accs ! i) txs"
    by blast
  from assms have len0: "0 < length accs" by simp
  have "i = 0"
  proof (rule ccontr)
    assume "i \<noteq> 0"
    then have "0 < i" by simp
    with fst have "clampedBalance (accs ! 0) txs < clampedBalance (accs ! i) txs" by blast
    with z [OF len0] z [OF i] show False by simp
  qed
  with f z [OF len0] assms show "highestDebtAccount accs txs = Some \<lparr>h_account = hd accs, debt = 0\<rparr>"
    by (simp add: hd_conv_nth)
qed

lemma example_highest:
  "highestDebtAccount [educationLoan, everydayCard, everydayCard] [plannedPayment] =
     Some \<lparr>h_account = everydayCard, debt = 12000\<rparr>"
  by (simp add: highestDebtAccount_def accountSummaries_def highestStep_def getBalance_def
        applyTransaction_def everydayCard_def educationLoan_def plannedPayment_def)

theorem highestDebtAccount_first_max_witness:
  "[educationLoan, everydayCard, everydayCard] \<noteq> [] \<and>
   highestDebtAccount [educationLoan, everydayCard, everydayCard] [plannedPayment] =
     Some \<lparr>h_account = [educationLoan, everydayCard, everydayCard] ! 1, debt = 12000\<rparr> \<and>
   (\<exists>i<length [educationLoan, everydayCard, everydayCard].
      highestDebtAccount [educationLoan, everydayCard, everydayCard] [plannedPayment] =
        Some \<lparr>h_account = [educationLoan, everydayCard, everydayCard] ! i,
              debt = max (getBalance ([educationLoan, everydayCard, everydayCard] ! i) [plannedPayment]) 0\<rparr>) \<and>
   getBalance educationLoan [plannedPayment] \<le> 0 \<and>
   highestDebtAccount [educationLoan, educationLoan] [plannedPayment] =
     Some \<lparr>h_account = educationLoan, debt = 0\<rparr>"
proof -
  have ne: "[educationLoan, everydayCard, everydayCard] \<noteq> []"
    and ne': "[educationLoan, educationLoan] \<noteq> []" by simp_all
  have neg: "getBalance educationLoan [plannedPayment] \<le> 0"
    by (simp add: getBalance_def applyTransaction_def educationLoan_def plannedPayment_def)
  from highestDebtAccount_first_max [OF ne, of "[plannedPayment]"]
  have "\<exists>i<length [educationLoan, everydayCard, everydayCard].
      highestDebtAccount [educationLoan, everydayCard, everydayCard] [plannedPayment] =
        Some \<lparr>h_account = [educationLoan, everydayCard, everydayCard] ! i,
              debt = max (getBalance ([educationLoan, everydayCard, everydayCard] ! i) [plannedPayment]) 0\<rparr>"
    by blast
  moreover from highestDebtAccount_first_max [OF ne', of "[plannedPayment]"] neg
  have "highestDebtAccount [educationLoan, educationLoan] [plannedPayment] =
     Some \<lparr>h_account = educationLoan, debt = 0\<rparr>"
    by simp
  ultimately show ?thesis using neg example_highest by simp
qed

section \<open>Persistence adapter: properties\<close>






end
